theory Spec2Isabelle
  imports Complex_Main "HOL-Library.Sublist"
begin

section \<open>Text\<close>

text \<open>
  A Python \<^verbatim>\<open>str\<close> is a sequence of code points, and \<^verbatim>\<open>len\<close> counts them. The
  literals of the program are ASCII, apart from the two symbols that open its messages.
\<close>

type_synonym codepoint = nat

type_synonym str = "codepoint list"

definition ascii :: "string \<Rightarrow> str" where
  "ascii s = map of_char s"

text \<open>
  \<^verbatim>\<open>str.upper\<close>, \<^verbatim>\<open>str.lower\<close> and \<^verbatim>\<open>str.isalpha\<close> read the character database of
  the interpreter, which is not part of the repository. It is a parameter of the model,
  asked about the code points from 128 on: whether one is a letter, its uppercase form
  (one to three code points), and its lowercase form, which may depend on where the code
  point stands in the text (the capital sigma) and is a single code point.
\<close>

record unicode_data =
  uc_isalpha :: "codepoint \<Rightarrow> bool"
  uc_upper :: "codepoint \<Rightarrow> str"
  uc_lower :: "str \<Rightarrow> nat \<Rightarrow> codepoint"

text \<open>
  On ASCII the three operations are written out. U+0130 is the one code point whose
  lowercase form has two code points.
\<close>

definition isalpha_char :: "unicode_data \<Rightarrow> codepoint \<Rightarrow> bool" where
  "isalpha_char ucd c =
     (if c < 128 then (65 \<le> c \<and> c \<le> 90) \<or> (97 \<le> c \<and> c \<le> 122) else uc_isalpha ucd c)"

definition upper_char :: "unicode_data \<Rightarrow> codepoint \<Rightarrow> str" where
  "upper_char ucd c =
     (if c < 128 then [if 97 \<le> c \<and> c \<le> 122 then c - 32 else c] else uc_upper ucd c)"

definition lower_char :: "unicode_data \<Rightarrow> str \<Rightarrow> nat \<Rightarrow> codepoint \<Rightarrow> str" where
  "lower_char ucd whole i c =
     (if c < 128 then [if 65 \<le> c \<and> c \<le> 90 then c + 32 else c]
      else if c = 0x130 then [0x69, 0x307]
      else [uc_lower ucd whole i])"

text \<open>The code points \<^verbatim>\<open>str.strip\<close> removes: those for which \<^verbatim>\<open>str.isspace\<close> holds.\<close>

definition isspace_char :: "codepoint \<Rightarrow> bool" where
  "isspace_char c =
     ((9 \<le> c \<and> c \<le> 13) \<or> (28 \<le> c \<and> c \<le> 32) \<or> c = 0x85 \<or> c = 0xA0 \<or> c = 0x1680
      \<or> (0x2000 \<le> c \<and> c \<le> 0x200A) \<or> c = 0x2028 \<or> c = 0x2029 \<or> c = 0x202F
      \<or> c = 0x205F \<or> c = 0x3000)"

definition str_upper :: "unicode_data \<Rightarrow> str \<Rightarrow> str" where
  "str_upper ucd s = concat (map (upper_char ucd) s)"

fun lower_from :: "unicode_data \<Rightarrow> str \<Rightarrow> nat \<Rightarrow> str \<Rightarrow> str" where
  "lower_from ucd whole i [] = []"
| "lower_from ucd whole i (c # cs) = lower_char ucd whole i c @ lower_from ucd whole (Suc i) cs"

definition str_lower :: "unicode_data \<Rightarrow> str \<Rightarrow> str" where
  "str_lower ucd s = lower_from ucd s 0 s"

definition str_isalpha :: "unicode_data \<Rightarrow> str \<Rightarrow> bool" where
  "str_isalpha ucd s = (s \<noteq> [] \<and> list_all (isalpha_char ucd) s)"

definition str_strip :: "str \<Rightarrow> str" where
  "str_strip s = rev (dropWhile isspace_char (rev (dropWhile isspace_char s)))"

fun str_join :: "str \<Rightarrow> str list \<Rightarrow> str" where
  "str_join sep [] = []"
| "str_join sep [x] = x"
| "str_join sep (x # y # ys) = x @ sep @ str_join sep (y # ys)"

definition newline :: str where
  "newline = [0x0A]"

definition quote :: str where
  "quote = [0x27]"

text \<open>U+274C and U+2753, the marks in front of the error and the help message.\<close>

definition cross_mark :: str where
  "cross_mark = [0x274C]"

definition question_mark :: str where
  "question_mark = [0x2753]"


section \<open>The remote service as the client sees it\<close>

text \<open>
  What an awaited call can raise. The handlers of the program are all
  \<^verbatim>\<open>except Exception\<close>: they catch the instances of \<^verbatim>\<open>Exception\<close>, of which they
  use \<^verbatim>\<open>str(e)\<close>, and let the other instances of \<^verbatim>\<open>BaseException\<close> through, such
  as \<^verbatim>\<open>asyncio.CancelledError\<close> and \<^verbatim>\<open>KeyboardInterrupt\<close>.
\<close>

datatype exception =
    RuntimeError str
  | Exception str
  | CancelledError
  | KeyboardInterrupt

fun is_Exception :: "exception \<Rightarrow> bool" where
  "is_Exception (RuntimeError message) = True"
| "is_Exception (Exception message) = True"
| "is_Exception CancelledError = False"
| "is_Exception KeyboardInterrupt = False"

fun exception_str :: "exception \<Rightarrow> str" where
  "exception_str (RuntimeError message) = message"
| "exception_str (Exception message) = message"
| "exception_str CancelledError = []"
| "exception_str KeyboardInterrupt = []"

text \<open>
  The session object belongs to the client library. The program awaits three of its
  methods, and each either returns or raises. A value that comes back from the service
  is used only through \<^verbatim>\<open>str\<close>, \<^verbatim>\<open>hasattr(result, 'content')\<close> and
  \<^verbatim>\<open>isinstance(result.content, list)\<close>.
\<close>

datatype 'a outcome = Returns 'a | Raises exception

datatype pyobject = PyObject str

fun py_str :: "pyobject \<Rightarrow> str" where
  "py_str (PyObject text) = text"

datatype content = ContentList "pyobject list" | ContentValue pyobject

datatype tool_result = WithContent content | WithoutContent pyobject

datatype argument = StrArg str | FloatArg rat

type_synonym arguments = "(str \<times> argument) list"

record Tool =
  name :: str
  description :: str
  inputSchema :: "str option"

record ClientSession =
  initialize :: "unit outcome"
  list_tools :: "Tool list outcome"
  call_tool :: "str \<Rightarrow> arguments \<Rightarrow> tool_result outcome"

text \<open>Starting the server process and opening the session on its pipes.\<close>

record server_launch =
  stdio_client :: "unit outcome"
  client_session :: "ClientSession outcome"

text \<open>The requests a method sends to the service, in order.\<close>

datatype event = ListTools | CallTool str arguments


section \<open>WeatherMCPClient\<close>

text \<open>
  A method gives what it returns (\<open>Inr\<close>) or the exception that leaves it (\<open>Inl\<close>),
  and the requests it has sent. Console output is left out throughout.
\<close>

record WeatherMCPClient =
  session :: "ClientSession option"

definition new_client :: WeatherMCPClient where
  "new_client = \<lparr>session = None\<rparr>"

definition not_connected :: exception where
  "not_connected =
     RuntimeError (ascii ''Not connected to server. Call connect_to_weather_server() first.'')"

text \<open>
  \<^verbatim>\<open>try: ... except Exception as e: return handler(str(e))\<close> around an awaited call
  that raised \<open>e\<close>.
\<close>

definition except_Exception :: "exception \<Rightarrow> (str \<Rightarrow> 'a) \<Rightarrow> exception + 'a" where
  "except_Exception e handler = (if is_Exception e then Inr (handler (exception_str e)) else Inl e)"

text \<open>
  \<^verbatim>\<open>connect_to_weather_server\<close>: the session attribute is assigned as soon as the
  session object exists, before the handshake; an \<^verbatim>\<open>Exception\<close> from any step is
  answered with \<^verbatim>\<open>False\<close>.
\<close>

definition connect_to_weather_server ::
  "server_launch \<Rightarrow> WeatherMCPClient \<Rightarrow> (exception + bool) \<times> WeatherMCPClient" where
  "connect_to_weather_server launch self =
     (case stdio_client launch of
        Raises e \<Rightarrow> (except_Exception e (\<lambda>text. False), self)
      | Returns transport \<Rightarrow>
          (case client_session launch of
             Raises e \<Rightarrow> (except_Exception e (\<lambda>text. False), self)
           | Returns s \<Rightarrow>
               (let self' = self\<lparr>session := Some s\<rparr> in
                case initialize s of
                  Raises e \<Rightarrow> (except_Exception e (\<lambda>text. False), self')
                | Returns u \<Rightarrow>
                    (case list_tools s of
                       Raises e \<Rightarrow> (except_Exception e (\<lambda>text. False), self')
                     | Returns tools \<Rightarrow> (Inr True, self')))))"

text \<open>
  The block that every query method repeats on the value \<^verbatim>\<open>call_tool\<close> returned.
\<close>

fun format_result :: "tool_result \<Rightarrow> str" where
  "format_result (WithContent (ContentList items)) = str_join newline (map py_str items)"
| "format_result (WithContent (ContentValue v)) = py_str v"
| "format_result (WithoutContent result) = py_str result"

text \<open>
  One awaited \<^verbatim>\<open>call_tool\<close> inside a \<^verbatim>\<open>try\<close> whose handler returns the
  method's own message followed by \<^verbatim>\<open>str(e)\<close>.
\<close>

definition invoke ::
  "str \<Rightarrow> ClientSession \<Rightarrow> str \<Rightarrow> arguments \<Rightarrow> (exception + str) \<times> event list" where
  "invoke message s tool args =
     (case call_tool s tool args of
        Raises e \<Rightarrow> (except_Exception e (\<lambda>text. message @ text), [CallTool tool args])
      | Returns result \<Rightarrow> (Inr (format_result result), [CallTool tool args]))"

definition location_coords :: "(str \<times> rat \<times> rat) list" where
  "location_coords =
     [(ascii ''beijing'', (39.9042, 116.4074)),
      (ascii ''new york'', (40.7128, -74.0060)),
      (ascii ''london'', (51.5074, -0.1278)),
      (ascii ''tokyo'', (35.6762, 139.6503)),
      (ascii ''san francisco'', (37.7749, -122.4194)),
      (ascii ''paris'', (48.8566, 2.3522)),
      (ascii ''sydney'', (-33.8688, 151.2093)),
      (ascii ''los angeles'', (34.0522, -118.2437)),
      (ascii ''chicago'', (41.8781, -87.6298)),
      (ascii ''miami'', (25.7617, -80.1918))]"

definition querying_error :: str where
  "querying_error = cross_mark @ ascii '' Error querying weather: ''"

definition forecast_error :: str where
  "forecast_error = cross_mark @ ascii '' Error getting forecast: ''"

definition alerts_error :: str where
  "alerts_error = cross_mark @ ascii '' Error getting alerts: ''"

text \<open>The closing message of \<^verbatim>\<open>query_weather\<close>, over the keys of a table.\<close>

definition unable_to_query :: "(str \<times> rat \<times> rat) list \<Rightarrow> str \<Rightarrow> str list \<Rightarrow> str" where
  "unable_to_query table location available_tools =
     question_mark @ ascii '' Unable to query weather for '' @ quote @ location @ quote @ ascii ''.''
     @ newline @ newline
     @ ascii ''Available options:'' @ newline
     @ ascii ''1. For US weather alerts, use a 2-letter state code (e.g., 'CA', 'NY', 'TX')''
     @ newline
     @ ascii ''2. For weather forecasts, use one of these supported cities:'' @ newline
     @ ascii ''   '' @ str_join (ascii '', '') (map fst table) @ newline @ newline
     @ ascii ''Available tools on server: '' @ str_join (ascii '', '') available_tools"

text \<open>
  \<^verbatim>\<open>query_weather\<close> from the state-code test to its last line. The table is a
  local constant of the method; the block is written over any table, so that the order
  of its two tests can be stated, and \<^verbatim>\<open>query_weather\<close> runs it on
  \<^const>\<open>location_coords\<close>.
\<close>

definition route_location ::
  "(str \<times> rat \<times> rat) list \<Rightarrow> unicode_data \<Rightarrow> ClientSession \<Rightarrow> str list \<Rightarrow> str
     \<Rightarrow> (exception + str) \<times> event list" where
  "route_location table ucd s available_tools location =
     (if (length location = 2 \<and> str_isalpha ucd (str_upper ucd location))
         \<and> ascii ''get_alerts'' \<in> set available_tools
      then invoke querying_error s (ascii ''get_alerts'')
             [(ascii ''state'', StrArg (str_upper ucd location))]
      else
        (let location_lower = str_lower ucd location in
         case map_of table location_lower of
           Some (lat, lon) \<Rightarrow>
             if ascii ''get_forecast'' \<in> set available_tools
             then invoke querying_error s (ascii ''get_forecast'')
                    [(ascii ''latitude'', FloatArg lat), (ascii ''longitude'', FloatArg lon)]
             else (Inr (unable_to_query table location available_tools), [])
         | None \<Rightarrow> (Inr (unable_to_query table location available_tools), [])))"

definition query_weather ::
  "unicode_data \<Rightarrow> WeatherMCPClient \<Rightarrow> str \<Rightarrow> (exception + str) \<times> event list" where
  "query_weather ucd self location =
     (case session self of
        None \<Rightarrow> (Inl not_connected, [])
      | Some s \<Rightarrow>
          (case list_tools s of
             Raises e \<Rightarrow> (except_Exception e (\<lambda>text. querying_error @ text), [ListTools])
           | Returns tools \<Rightarrow>
               (let available_tools = map name tools in
                if available_tools = []
                then (Inr (ascii ''No tools available on the server.''), [ListTools])
                else (case route_location location_coords ucd s available_tools location of
                        (answer, sent) \<Rightarrow> (answer, ListTools # sent)))))"

definition get_weather_forecast ::
  "WeatherMCPClient \<Rightarrow> rat \<Rightarrow> rat \<Rightarrow> (exception + str) \<times> event list" where
  "get_weather_forecast self latitude longitude =
     (case session self of
        None \<Rightarrow> (Inl not_connected, [])
      | Some s \<Rightarrow>
          invoke forecast_error s (ascii ''get_forecast'')
            [(ascii ''latitude'', FloatArg latitude), (ascii ''longitude'', FloatArg longitude)])"

definition get_weather_alerts ::
  "unicode_data \<Rightarrow> WeatherMCPClient \<Rightarrow> str \<Rightarrow> (exception + str) \<times> event list" where
  "get_weather_alerts ucd self state_code =
     (case session self of
        None \<Rightarrow> (Inl not_connected, [])
      | Some s \<Rightarrow>
          (let state_code = str_upper ucd state_code in
           invoke alerts_error s (ascii ''get_alerts'') [(ascii ''state'', StrArg state_code)]))"

definition list_available_tools ::
  "WeatherMCPClient \<Rightarrow> (exception + Tool list) \<times> event list" where
  "list_available_tools self =
     (case session self of
        None \<Rightarrow> (Inl not_connected, [])
      | Some s \<Rightarrow>
          (case list_tools s of
             Raises e \<Rightarrow> (except_Exception e (\<lambda>text. []), [ListTools])
           | Returns tools \<Rightarrow> (Inr tools, [ListTools])))"


section \<open>Services and texts used in the examples\<close>

text \<open>
  The character database of Python 3 at the code points the examples use: U+00E9 and
  U+00C9 are the small and the capital e with acute; U+01F0 is a letter whose uppercase
  form is J followed by the combining caron U+030C, which is not a letter. No example
  reads it at any other code point from 128 on.
\<close>

definition unicode_excerpt :: unicode_data where
  "unicode_excerpt =
     \<lparr>uc_isalpha = (\<lambda>c. c = 0xE9 \<or> c = 0xC9 \<or> c = 0x1F0),
      uc_upper = (\<lambda>c. if c = 0xE9 then [0xC9] else if c = 0x1F0 then [0x4A, 0x30C] else [c]),
      uc_lower = (\<lambda>whole i. if whole ! i = 0xC9 then 0xE9 else whole ! i)\<rparr>"

definition alerts_tool :: Tool where
  "alerts_tool = \<lparr>name = ascii ''get_alerts'',
                  description = ascii ''Get weather alerts for a US state.'',
                  inputSchema = None\<rparr>"

definition forecast_tool :: Tool where
  "forecast_tool = \<lparr>name = ascii ''get_forecast'',
                    description = ascii ''Get weather forecast for a location.'',
                    inputSchema = None\<rparr>"

definition two_values :: tool_result where
  "two_values =
     WithContent (ContentList [PyObject (ascii ''Tonight: clear''), PyObject (ascii ''Tomorrow: rain'')])"

text \<open>A service with both operations that answers every call with two values.\<close>

definition weather_service :: ClientSession where
  "weather_service =
     \<lparr>initialize = Returns (), list_tools = Returns [alerts_tool, forecast_tool],
      call_tool = (\<lambda>tool args. Returns two_values)\<rparr>"

text \<open>A service that answers every call with one value that is not a list.\<close>

definition scalar_service :: ClientSession where
  "scalar_service =
     weather_service\<lparr>call_tool :=
       (\<lambda>tool args. Returns (WithContent (ContentValue (PyObject (ascii ''No active alerts'')))))\<rparr>"

text \<open>The same service advertising the forecast operation only.\<close>

definition forecast_only_service :: ClientSession where
  "forecast_only_service = weather_service\<lparr>list_tools := Returns [forecast_tool]\<rparr>"

text \<open>A service that advertises nothing.\<close>

definition silent_service :: ClientSession where
  "silent_service = weather_service\<lparr>list_tools := Returns []\<rparr>"

text \<open>A service whose every tool call fails, and one that also fails to list its tools.\<close>

definition connection_closed :: exception where
  "connection_closed = Exception (ascii ''Connection closed'')"

definition failing_service :: ClientSession where
  "failing_service = weather_service\<lparr>call_tool := (\<lambda>tool args. Raises connection_closed)\<rparr>"

definition mute_service :: ClientSession where
  "mute_service = failing_service\<lparr>list_tools := Raises connection_closed\<rparr>"


text \<open>
  A server process that starts and takes a session on its pipes, but fails the handshake
  and every request after it.
\<close>

definition unready_service :: ClientSession where
  "unready_service = mute_service\<lparr>initialize := Raises connection_closed\<rparr>"

definition unready_launch :: server_launch where
  "unready_launch = \<lparr>stdio_client = Returns (), client_session = Returns unready_service\<rparr>"

text \<open>A table with a two-letter key, as \<^const>\<open>location_coords\<close> has none.\<close>

definition two_letter_table :: "(str \<times> rat \<times> rat) list" where
  "two_letter_table = [(ascii ''la'', (34.0522, -118.2437))]"

definition client_of :: "ClientSession \<Rightarrow> WeatherMCPClient" where
  "client_of s = \<lparr>session = Some s\<rparr>"

section \<open>Auxiliary facts\<close>

lemma length_ascii [simp]: "length (ascii s) = length s"
  by (simp add: ascii_def)

lemma ascii_eq_iff [simp]: "ascii a = ascii b \<longleftrightarrow> a = b"
proof -
  have "inj (of_char :: char \<Rightarrow> nat)" by (rule injI) simp
  then show ?thesis by (simp add: ascii_def inj_map_eq_map)
qed

lemma upper_char_ascii_letter:
  "(65 \<le> c \<and> c \<le> 90) \<or> (97 \<le> c \<and> c \<le> 122)
   \<Longrightarrow> list_all (isalpha_char ucd) (upper_char ucd c)"
  by (auto simp add: isalpha_char_def upper_char_def)

lemma str_upper_ascii_letters:
  "list_all (\<lambda>c. (65 \<le> c \<and> c \<le> 90) \<or> (97 \<le> c \<and> c \<le> 122)) s
   \<Longrightarrow> list_all (isalpha_char ucd) (str_upper ucd s)"
  by (induction s) (simp_all add: str_upper_def upper_char_ascii_letter)

lemma upper_char_not_Nil: "c < 128 \<Longrightarrow> upper_char ucd c \<noteq> []"
  by (simp add: upper_char_def)

lemma ascii_letters_isalpha:
  assumes "s \<noteq> []"
    and "list_all (\<lambda>c. (65 \<le> c \<and> c \<le> 90) \<or> (97 \<le> c \<and> c \<le> 122)) s"
  shows "str_isalpha ucd (str_upper ucd s)"
proof -
  from assms obtain c cs where s: "s = c # cs" and c: "c < 128"
    by (cases s) auto
  then have "str_upper ucd s \<noteq> []"
    by (simp add: str_upper_def upper_char_not_Nil)
  with str_upper_ascii_letters [OF assms(2)] show ?thesis
    by (simp add: str_isalpha_def)
qed

lemma length_lower_char: "length (lower_char ucd whole i c) \<le> 2"
  by (simp add: lower_char_def)

lemma length_lower_from: "length (lower_from ucd whole i s) \<le> 2 * length s"
proof (induction s arbitrary: i)
  case Nil
  show ?case by simp
next
  case (Cons c cs)
  from Cons [of "Suc i"] length_lower_char [of ucd whole i c] show ?case by simp
qed

lemma length_str_lower: "length (str_lower ucd s) \<le> 2 * length s"
  by (simp add: str_lower_def length_lower_from)

lemma location_coords_keys:
  "length location_coords = 10 \<and> distinct (map fst location_coords)"
  by (simp add: location_coords_def)

lemma location_key_length:
  "map_of location_coords k = Some v \<Longrightarrow> 5 \<le> length k"
  by (auto simp add: location_coords_def split: if_splits)

lemma city_not_two_letters:
  assumes "map_of location_coords (str_lower ucd s) = Some v"
  shows "length s \<noteq> 2"
  using location_key_length [OF assms] length_str_lower [of ucd s] by simp

lemma two_letters_no_city:
  assumes "length s = 2"
  shows "map_of location_coords (str_lower ucd s) = None"
proof (cases "map_of location_coords (str_lower ucd s)")
  case None
  then show ?thesis .
next
  case (Some v)
  from city_not_two_letters [OF Some] assms show ?thesis by simp
qed

lemma except_Exception_caught:
  "is_Exception e \<Longrightarrow> except_Exception e handler = Inr (handler (exception_str e))"
  by (simp add: except_Exception_def)


lemma snd_invoke [simp]: "snd (invoke message s tool args) = [CallTool tool args]"
  by (simp add: invoke_def split: outcome.split)

lemma fst_invoke_Returns:
  "call_tool s tool args = Returns r \<Longrightarrow> fst (invoke message s tool args) = Inr (format_result r)"
  by (simp add: invoke_def)



lemma route_location_sent:
  "CallTool tool args \<in> set (snd (route_location table ucd s available_tools location))
   \<Longrightarrow> route_location table ucd s available_tools location = invoke querying_error s tool args"
  by (auto simp add: route_location_def Let_def split: if_splits option.splits)


lemma query_weather_routed:
  assumes "session self = Some s" and "list_tools s = Returns tools" and "map name tools \<noteq> []"
  shows "query_weather ucd self location =
           (fst (route_location location_coords ucd s (map name tools) location),
            ListTools # snd (route_location location_coords ucd s (map name tools) location))"
  using assms by (simp add: query_weather_def split: prod.split)

lemma query_weather_sent:
  assumes "session self = Some s"
    and "CallTool tool args \<in> set (snd (query_weather ucd self location))"
  shows "fst (query_weather ucd self location) = fst (invoke querying_error s tool args)"
proof (cases "list_tools s")
  case (Raises e)
  with assms show ?thesis by (simp add: query_weather_def)
next
  case (Returns tools)
  show ?thesis
  proof (cases "map name tools = []")
    case True
    with assms Returns show ?thesis by (simp add: query_weather_def)
  next
    case False
    note routed = query_weather_routed [OF assms(1) Returns False, of ucd location]
    from assms(2) have "CallTool tool args
        \<in> set (snd (route_location location_coords ucd s (map name tools) location))"
      by (simp add: routed)
    from route_location_sent [OF this] show ?thesis by (simp add: routed)
  qed
qed


lemma route_location_same_requests:
  "snd (route_location table ucd s1 available_tools location)
     = snd (route_location table ucd s2 available_tools location)"
  by (simp add: route_location_def Let_def split: option.split)

lemma route_location_same_answer:
  "snd (route_location table ucd s1 available_tools location) = []
   \<Longrightarrow> route_location table ucd s1 available_tools location
       = route_location table ucd s2 available_tools location"
  by (auto simp add: route_location_def Let_def split: option.splits if_splits)

lemma str_upper_ca: "str_upper ucd (ascii ''ca'') = ascii ''CA''"
  by (simp add: str_upper_def upper_char_def ascii_def)

lemma str_upper_CA: "str_upper ucd (ascii ''CA'') = ascii ''CA''"
  by (simp add: str_upper_def upper_char_def ascii_def)

lemma str_upper_LA: "str_upper ucd (ascii ''LA'') = ascii ''LA''"
  by (simp add: str_upper_def upper_char_def ascii_def)

lemma str_upper_foo: "str_upper ucd (ascii ''foo'') = ascii ''FOO''"
  by (simp add: str_upper_def upper_char_def ascii_def)

lemma str_lower_LA: "str_lower ucd (ascii ''LA'') = ascii ''la''"
  by (simp add: str_lower_def lower_char_def ascii_def)

lemma str_lower_Beijing: "str_lower ucd (ascii ''Beijing'') = ascii ''beijing''"
  by (simp add: str_lower_def lower_char_def ascii_def)

lemma str_lower_padded_Beijing: "str_lower ucd (ascii '' Beijing'') = ascii '' beijing''"
  by (simp add: str_lower_def lower_char_def ascii_def)

lemma str_lower_Atlantis: "str_lower ucd (ascii ''Atlantis'') = ascii ''atlantis''"
  by (simp add: str_lower_def lower_char_def ascii_def)

lemma known_cities:
  "str_join (ascii '', '') (map fst location_coords)
     = ascii ''beijing, new york, london, tokyo, san francisco, paris, sydney, los angeles, chicago, miami''"
  by (simp add: location_coords_def ascii_def)

lemma unable_to_query_location:
  "prefix (question_mark @ ascii '' Unable to query weather for '' @ quote @ location @ quote)
     (unable_to_query table location available_tools)"
  by (simp add: unable_to_query_def)

lemma unable_to_query_cities:
  "sublist (str_join (ascii '', '') (map fst table))
     (unable_to_query table location available_tools)"
  unfolding unable_to_query_def sublist_def
  by (rule exI [of _ "question_mark @ ascii '' Unable to query weather for '' @ quote @ location
        @ quote @ ascii ''.'' @ newline @ newline @ ascii ''Available options:'' @ newline
        @ ascii ''1. For US weather alerts, use a 2-letter state code (e.g., 'CA', 'NY', 'TX')''
        @ newline
        @ ascii ''2. For weather forecasts, use one of these supported cities:'' @ newline
        @ ascii ''   ''"],
      rule exI [of _ "newline @ newline @ ascii ''Available tools on server: ''
        @ str_join (ascii '', '') available_tools"], simp)

lemma unable_to_query_tools:
  "suffix (ascii ''Available tools on server: '' @ str_join (ascii '', '') available_tools)
     (unable_to_query table location available_tools)"
  unfolding unable_to_query_def suffix_def
  by (rule exI [of _ "question_mark @ ascii '' Unable to query weather for '' @ quote @ location
        @ quote @ ascii ''.'' @ newline @ newline @ ascii ''Available options:'' @ newline
        @ ascii ''1. For US weather alerts, use a 2-letter state code (e.g., 'CA', 'NY', 'TX')''
        @ newline
        @ ascii ''2. For weather forecasts, use one of these supported cities:'' @ newline
        @ ascii ''   '' @ str_join (ascii '', '') (map fst table) @ newline @ newline"], simp)

lemma without_session:
  assumes "session self = None"
  shows "query_weather ucd self location = (Inl not_connected, [])"
    and "get_weather_forecast self latitude longitude = (Inl not_connected, [])"
    and "get_weather_alerts ucd self state_code = (Inl not_connected, [])"
    and "list_available_tools self = (Inl not_connected, [])"
  using assms
  by (simp_all add: query_weather_def get_weather_forecast_def get_weather_alerts_def
      list_available_tools_def)

lemma connect_without_transport:
  "stdio_client launch = Raises e \<Longrightarrow> is_Exception e
   \<Longrightarrow> connect_to_weather_server launch new_client = (Inr False, new_client)"
  by (simp add: connect_to_weather_server_def except_Exception_caught)


section \<open>Properties\<close>

text \<open>
  C1, as the code has it. \<^verbatim>\<open>query_weather\<close> lowercases its input and does not trim
  it. With a session in place and the forecast operation among the advertised ones, an
  input whose lowercased form is a key of the table makes it send, after the tool
  listing, one \<^verbatim>\<open>get_forecast\<close> call with the latitude and longitude stored under
  that key, and answer with what that call gives. "Beijing" is sent as
  (39.9042, 116.4074).
\<close>

theorem query_weather_city:
  assumes "session self = Some s" and "list_tools s = Returns tools"
    and "ascii ''get_forecast'' \<in> set (map name tools)"
    and "map_of location_coords (str_lower ucd location) = Some (lat, lon)"
  shows "query_weather ucd self location =
           (fst (invoke querying_error s (ascii ''get_forecast'')
                   [(ascii ''latitude'', FloatArg lat), (ascii ''longitude'', FloatArg lon)]),
            [ListTools, CallTool (ascii ''get_forecast'')
                          [(ascii ''latitude'', FloatArg lat), (ascii ''longitude'', FloatArg lon)]])"
proof -
  from assms(3) have ne: "map name tools \<noteq> []" by auto
  have "length location \<noteq> 2" using assms(4) by (rule city_not_two_letters)
  with assms(3,4) have "route_location location_coords ucd s (map name tools) location =
      invoke querying_error s (ascii ''get_forecast'')
        [(ascii ''latitude'', FloatArg lat), (ascii ''longitude'', FloatArg lon)]"
    by (simp add: route_location_def)
  then show ?thesis
    by (simp add: query_weather_routed [OF assms(1,2) ne])
qed

theorem query_weather_city_witness:
  "session (client_of weather_service) = Some weather_service
   \<and> list_tools weather_service = Returns [alerts_tool, forecast_tool]
   \<and> ascii ''get_forecast'' \<in> set (map name [alerts_tool, forecast_tool])
   \<and> map_of location_coords (str_lower unicode_excerpt (ascii ''Beijing''))
       = Some (39.9042, 116.4074)
   \<and> snd (query_weather unicode_excerpt (client_of weather_service) (ascii ''Beijing''))
       = [ListTools, CallTool (ascii ''get_forecast'')
                       [(ascii ''latitude'', FloatArg 39.9042),
                        (ascii ''longitude'', FloatArg 116.4074)]]"
proof -
  have a: "session (client_of weather_service) = Some weather_service"
    by (simp add: client_of_def)
  have b: "list_tools weather_service = Returns [alerts_tool, forecast_tool]"
    by (simp add: weather_service_def)
  have c: "ascii ''get_forecast'' \<in> set (map name [alerts_tool, forecast_tool])"
    by (simp add: forecast_tool_def)
  have d: "map_of location_coords (str_lower unicode_excerpt (ascii ''Beijing''))
      = Some (39.9042, 116.4074)"
    by (simp add: str_lower_Beijing location_coords_def)
  show ?thesis
    using a b c d query_weather_city [OF a b c d] by simp
qed

text \<open>
  C1, as stated, fails. The input " Beijing" equals the key "beijing" once trimmed and
  lowercased, and the forecast operation is advertised; \<^verbatim>\<open>query_weather\<close> sends no
  forecast call and answers with its help message.
\<close>

theorem query_weather_untrimmed_counterexample:
  "str_lower unicode_excerpt (str_strip (ascii '' Beijing'')) = ascii ''beijing''
   \<and> map_of location_coords (ascii ''beijing'') = Some (39.9042, 116.4074)
   \<and> list_tools weather_service = Returns [alerts_tool, forecast_tool]
   \<and> name forecast_tool = ascii ''get_forecast''
   \<and> query_weather unicode_excerpt (client_of weather_service) (ascii '' Beijing'')
       = (Inr (unable_to_query location_coords (ascii '' Beijing'')
                 [ascii ''get_alerts'', ascii ''get_forecast'']),
          [ListTools])"
proof -
  have t: "str_strip (ascii '' Beijing'') = ascii ''Beijing''"
    by (simp add: str_strip_def isspace_char_def ascii_def)
  have a: "str_lower unicode_excerpt (str_strip (ascii '' Beijing'')) = ascii ''beijing''"
    by (simp add: t str_lower_Beijing)
  have b: "map_of location_coords (ascii ''beijing'') = Some (39.9042, 116.4074)"
    by (simp add: location_coords_def)
  have c: "list_tools weather_service = Returns [alerts_tool, forecast_tool]"
    by (simp add: weather_service_def)
  have d: "name forecast_tool = ascii ''get_forecast''" by (simp add: forecast_tool_def)
  have e: "map_of location_coords (ascii '' beijing'') = None"
    by (simp add: location_coords_def)
  have "route_location location_coords unicode_excerpt weather_service
          [ascii ''get_alerts'', ascii ''get_forecast''] (ascii '' Beijing'')
      = (Inr (unable_to_query location_coords (ascii '' Beijing'')
                [ascii ''get_alerts'', ascii ''get_forecast'']), [])"
    by (simp add: route_location_def str_lower_padded_Beijing e)
  then have "query_weather unicode_excerpt (client_of weather_service) (ascii '' Beijing'')
       = (Inr (unable_to_query location_coords (ascii '' Beijing'')
                 [ascii ''get_alerts'', ascii ''get_forecast'']),
          [ListTools])"
    by (simp add: query_weather_def client_of_def weather_service_def alerts_tool_def
        forecast_tool_def)
  with a b c d show ?thesis by simp
qed

text \<open>
  C2. Two services that differ in nothing but the operations they advertise: on the same
  input "CA" the first is sent an alert call and the second is sent none.
\<close>

theorem query_weather_advertised_counterexample:
  "snd (query_weather unicode_excerpt (client_of weather_service) (ascii ''CA''))
     = [ListTools, CallTool (ascii ''get_alerts'') [(ascii ''state'', StrArg (ascii ''CA''))]]
   \<and> snd (query_weather unicode_excerpt (client_of forecast_only_service) (ascii ''CA''))
     = [ListTools]"
  by code_simp

text \<open>
  C2, as the code has it. What \<^verbatim>\<open>query_weather\<close> does with an input is fixed by
  the input, the table and the names the service advertises at that call: two clients
  whose services advertise the same names are sent the same requests on the same input,
  whatever else their services hold and answer; and when no tool call is sent the whole
  result is the same.
\<close>

theorem query_weather_requests_determined:
  assumes "session self1 = Some s1" and "session self2 = Some s2"
    and "list_tools s1 = Returns tools1" and "list_tools s2 = Returns tools2"
    and "map name tools1 = map name tools2"
  shows "snd (query_weather ucd self1 location) = snd (query_weather ucd self2 location)
         \<and> (snd (query_weather ucd self1 location) = [ListTools]
              \<longrightarrow> query_weather ucd self1 location = query_weather ucd self2 location)"
proof (cases "map name tools1 = []")
  case True
  with assms show ?thesis by (simp add: query_weather_def)
next
  case False
  with assms(5) have ne2: "map name tools2 \<noteq> []" by simp
  note r1 = query_weather_routed [OF assms(1,3) False, of ucd location]
  note r2 = query_weather_routed [OF assms(2,4) ne2, of ucd location]
  show ?thesis
    using route_location_same_requests [of location_coords ucd s1 "map name tools2" location s2]
      route_location_same_answer [of location_coords ucd s1 "map name tools2" location s2]
    by (simp add: r1 r2 assms(5))
qed

theorem query_weather_requests_determined_witness:
  "session (client_of weather_service) = Some weather_service
   \<and> session (client_of failing_service) = Some failing_service
   \<and> list_tools weather_service = Returns [alerts_tool, forecast_tool]
   \<and> list_tools failing_service = Returns [alerts_tool, forecast_tool]
   \<and> call_tool weather_service \<noteq> call_tool failing_service
   \<and> snd (query_weather unicode_excerpt (client_of weather_service) (ascii ''CA''))
       = snd (query_weather unicode_excerpt (client_of failing_service) (ascii ''CA''))
   \<and> snd (query_weather unicode_excerpt (client_of weather_service) (ascii ''Atlantis''))
       = [ListTools]
   \<and> query_weather unicode_excerpt (client_of weather_service) (ascii ''Atlantis'')
       = query_weather unicode_excerpt (client_of failing_service) (ascii ''Atlantis'')"
proof -
  have a: "session (client_of weather_service) = Some weather_service"
    by (simp add: client_of_def)
  have b: "session (client_of failing_service) = Some failing_service"
    by (simp add: client_of_def)
  have c: "list_tools weather_service = Returns [alerts_tool, forecast_tool]"
    by (simp add: weather_service_def)
  have d: "list_tools failing_service = Returns [alerts_tool, forecast_tool]"
    by (simp add: failing_service_def weather_service_def)
  have e: "map name [alerts_tool, forecast_tool] = map name [alerts_tool, forecast_tool]"
    by simp
  have f: "call_tool weather_service \<noteq> call_tool failing_service"
    by (simp add: failing_service_def weather_service_def fun_eq_iff)
  have g: "snd (query_weather unicode_excerpt (client_of weather_service) (ascii ''Atlantis''))
      = [ListTools]"
    by code_simp
  show ?thesis
    using a b c d f g
      query_weather_requests_determined [OF a b c d e, of unicode_excerpt "ascii ''CA''"]
      query_weather_requests_determined [OF a b c d e, of unicode_excerpt "ascii ''Atlantis''"]
    by simp
qed

text \<open>
  C3, as stated, fails. The input of the two letters U+01F0 and "a" has an uppercase form
  of three code points, one of them the combining caron, which is not a letter: with the
  alert operation advertised, \<^verbatim>\<open>query_weather\<close> sends no alert call and answers with
  its help message.
\<close>

theorem query_weather_two_letters_counterexample:
  "length [0x1F0, 0x61 :: codepoint] = 2
   \<and> str_isalpha unicode_excerpt [0x1F0, 0x61]
   \<and> list_tools weather_service = Returns [alerts_tool, forecast_tool]
   \<and> name alerts_tool = ascii ''get_alerts''
   \<and> str_upper unicode_excerpt [0x1F0, 0x61] = [0x4A, 0x30C, 0x41]
   \<and> \<not> str_isalpha unicode_excerpt [0x4A, 0x30C, 0x41]
   \<and> query_weather unicode_excerpt (client_of weather_service) [0x1F0, 0x61]
       = (Inr (unable_to_query location_coords [0x1F0, 0x61]
                 [ascii ''get_alerts'', ascii ''get_forecast'']),
          [ListTools])"
proof -
  have a: "str_isalpha unicode_excerpt [0x1F0, 0x61]"
    by (simp add: str_isalpha_def isalpha_char_def unicode_excerpt_def)
  have b: "list_tools weather_service = Returns [alerts_tool, forecast_tool]"
    by (simp add: weather_service_def)
  have c: "name alerts_tool = ascii ''get_alerts''" by (simp add: alerts_tool_def)
  have u: "str_upper unicode_excerpt [0x1F0, 0x61] = [0x4A, 0x30C, 0x41]"
    by (simp add: str_upper_def upper_char_def unicode_excerpt_def)
  have n: "\<not> str_isalpha unicode_excerpt [0x4A, 0x30C, 0x41]"
    by (simp add: str_isalpha_def isalpha_char_def unicode_excerpt_def)
  have l: "map_of location_coords (str_lower unicode_excerpt [0x1F0, 0x61]) = None"
    by (rule two_letters_no_city) simp
  have "route_location location_coords unicode_excerpt weather_service
          [ascii ''get_alerts'', ascii ''get_forecast''] [0x1F0, 0x61]
      = (Inr (unable_to_query location_coords [0x1F0, 0x61]
                [ascii ''get_alerts'', ascii ''get_forecast'']), [])"
    by (simp add: route_location_def u n l)
  then have "query_weather unicode_excerpt (client_of weather_service) [0x1F0, 0x61]
       = (Inr (unable_to_query location_coords [0x1F0, 0x61]
                 [ascii ''get_alerts'', ascii ''get_forecast'']),
          [ListTools])"
    by (simp add: query_weather_def client_of_def weather_service_def alerts_tool_def
        forecast_tool_def)
  with a b c u n show ?thesis by simp
qed

text \<open>
  C3, as the code has it. The test is on the uppercased input: with a session in place
  and the alert operation among the advertised ones, an input of exactly two characters
  whose uppercase form is alphabetic makes \<^verbatim>\<open>query_weather\<close> send, after the tool
  listing, one \<^verbatim>\<open>get_alerts\<close> call whose parameters are \<open>{state: input.upper()}\<close>,
  and answer with what that call gives. Every input of two ASCII letters is such an
  input: "ca" is sent as state "CA".
\<close>

theorem query_weather_state_code:
  assumes "session self = Some s" and "list_tools s = Returns tools"
    and "ascii ''get_alerts'' \<in> set (map name tools)"
    and "length location = 2"
    and "str_isalpha ucd (str_upper ucd location)
         \<or> list_all (\<lambda>c. (65 \<le> c \<and> c \<le> 90) \<or> (97 \<le> c \<and> c \<le> 122)) location"
  shows "query_weather ucd self location =
           (fst (invoke querying_error s (ascii ''get_alerts'')
                   [(ascii ''state'', StrArg (str_upper ucd location))]),
            [ListTools, CallTool (ascii ''get_alerts'')
                          [(ascii ''state'', StrArg (str_upper ucd location))]])"
proof -
  from assms(3) have ne: "map name tools \<noteq> []" by auto
  from assms(4) have "location \<noteq> []" by auto
  with assms(5) have "str_isalpha ucd (str_upper ucd location)"
    by (auto intro: ascii_letters_isalpha)
  with assms(3,4) have "route_location location_coords ucd s (map name tools) location =
      invoke querying_error s (ascii ''get_alerts'')
        [(ascii ''state'', StrArg (str_upper ucd location))]"
    by (simp add: route_location_def)
  then show ?thesis
    by (simp add: query_weather_routed [OF assms(1,2) ne])
qed

theorem query_weather_state_code_witness:
  "session (client_of weather_service) = Some weather_service
   \<and> list_tools weather_service = Returns [alerts_tool, forecast_tool]
   \<and> ascii ''get_alerts'' \<in> set (map name [alerts_tool, forecast_tool])
   \<and> length (ascii ''ca'') = 2
   \<and> list_all (\<lambda>c. (65 \<le> c \<and> c \<le> 90) \<or> (97 \<le> c \<and> c \<le> 122)) (ascii ''ca'')
   \<and> snd (query_weather unicode_excerpt (client_of weather_service) (ascii ''ca''))
       = [ListTools, CallTool (ascii ''get_alerts'') [(ascii ''state'', StrArg (ascii ''CA''))]]
   \<and> length [0xE9, 0xE9 :: codepoint] = 2
   \<and> str_isalpha unicode_excerpt (str_upper unicode_excerpt [0xE9, 0xE9])
   \<and> snd (query_weather unicode_excerpt (client_of weather_service) [0xE9, 0xE9])
       = [ListTools, CallTool (ascii ''get_alerts'') [(ascii ''state'', StrArg [0xC9, 0xC9])]]"
proof -
  have a: "session (client_of weather_service) = Some weather_service"
    by (simp add: client_of_def)
  have b: "list_tools weather_service = Returns [alerts_tool, forecast_tool]"
    by (simp add: weather_service_def)
  have c: "ascii ''get_alerts'' \<in> set (map name [alerts_tool, forecast_tool])"
    by (simp add: alerts_tool_def)
  have d: "length (ascii ''ca'') = 2" by simp
  have e: "list_all (\<lambda>c. (65 \<le> c \<and> c \<le> 90) \<or> (97 \<le> c \<and> c \<le> 122)) (ascii ''ca'')"
    by (simp add: ascii_def)
  have e': "str_isalpha unicode_excerpt (str_upper unicode_excerpt (ascii ''ca''))
         \<or> list_all (\<lambda>c. (65 \<le> c \<and> c \<le> 90) \<or> (97 \<le> c \<and> c \<le> 122)) (ascii ''ca'')"
    using e by simp
  have f: "length [0xE9, 0xE9 :: codepoint] = 2" by simp
  have u: "str_upper unicode_excerpt [0xE9, 0xE9] = [0xC9, 0xC9]"
    by (simp add: str_upper_def upper_char_def unicode_excerpt_def)
  have g: "str_isalpha unicode_excerpt (str_upper unicode_excerpt [0xE9, 0xE9])"
    unfolding u by (simp add: str_isalpha_def isalpha_char_def unicode_excerpt_def)
  have g': "str_isalpha unicode_excerpt (str_upper unicode_excerpt [0xE9, 0xE9])
         \<or> list_all (\<lambda>c. (65 \<le> c \<and> c \<le> 90) \<or> (97 \<le> c \<and> c \<le> 122)) [0xE9, 0xE9]"
    using g by simp
  show ?thesis
    using a b c d e f g query_weather_state_code [OF a b c d e']
      query_weather_state_code [OF a b c f g']
    by (simp add: str_upper_ca u)
qed

text \<open>
  C4, as stated, fails. A service that advertises nothing does not advertise the alert
  operation; on the two-letter input "CA" \<^verbatim>\<open>query_weather\<close> answers with the fixed
  text of the empty tool listing, not with its help message.
\<close>

theorem state_code_empty_listing_counterexample:
  "length (ascii ''CA'') = 2
   \<and> str_isalpha unicode_excerpt (ascii ''CA'')
   \<and> list_tools silent_service = Returns []
   \<and> ascii ''get_alerts'' \<notin> set (map name [])
   \<and> query_weather unicode_excerpt (client_of silent_service) (ascii ''CA'')
       = (Inr (ascii ''No tools available on the server.''), [ListTools])
   \<and> ascii ''No tools available on the server.''
       \<noteq> unable_to_query location_coords (ascii ''CA'') []"
proof -
  have a: "str_isalpha unicode_excerpt (ascii ''CA'')"
    by (simp add: str_isalpha_def isalpha_char_def ascii_def)
  have b: "list_tools silent_service = Returns []"
    by (simp add: silent_service_def)
  have c: "query_weather unicode_excerpt (client_of silent_service) (ascii ''CA'')
       = (Inr (ascii ''No tools available on the server.''), [ListTools])"
    by (simp add: query_weather_def client_of_def b)
  have d: "ascii ''No tools available on the server.''
       \<noteq> unable_to_query location_coords (ascii ''CA'') []"
    by (simp add: unable_to_query_def question_mark_def ascii_def)
  from a b c d show ?thesis by simp
qed

text \<open>
  C4, as the code has it. The two-letter test comes before the table lookup: for an input
  of exactly two characters whose uppercase form is alphabetic, when the alert operation
  is advertised the request sent is the alert call, over any table, also one that holds
  the lowercased input as a key while the forecast operation is advertised. For every
  input of exactly two characters, when the tool listing is not empty and lacks the alert
  operation, \<^verbatim>\<open>query_weather\<close> falls through the lookup in its table, which has no
  key that short, to the help message, and sends no tool call.
\<close>

theorem state_code_tested_first:
  assumes "length location = 2"
  shows "(str_isalpha ucd (str_upper ucd location) \<and> ascii ''get_alerts'' \<in> set available_tools
            \<longrightarrow> snd (route_location table ucd s available_tools location)
                  = [CallTool (ascii ''get_alerts'')
                       [(ascii ''state'', StrArg (str_upper ucd location))]])
       \<and> (session self = Some s \<and> list_tools s = Returns tools \<and> tools \<noteq> []
            \<and> ascii ''get_alerts'' \<notin> set (map name tools)
            \<longrightarrow> query_weather ucd self location
                  = (Inr (unable_to_query location_coords location (map name tools)),
                     [ListTools]))"
proof -
  have none: "map_of location_coords (str_lower ucd location) = None"
    using assms by (rule two_letters_no_city)
  have first: "str_isalpha ucd (str_upper ucd location)
      \<and> ascii ''get_alerts'' \<in> set available_tools
      \<longrightarrow> snd (route_location table ucd s available_tools location)
            = [CallTool (ascii ''get_alerts'')
                 [(ascii ''state'', StrArg (str_upper ucd location))]]"
    using assms by (simp add: route_location_def)
  have whole: "session self = Some s \<and> list_tools s = Returns tools \<and> tools \<noteq> []
      \<and> ascii ''get_alerts'' \<notin> set (map name tools)
      \<longrightarrow> query_weather ucd self location
            = (Inr (unable_to_query location_coords location (map name tools)), [ListTools])"
  proof (intro impI, elim conjE)
    assume a: "session self = Some s" and b: "list_tools s = Returns tools"
      and c: "tools \<noteq> []" and d: "ascii ''get_alerts'' \<notin> set (map name tools)"
    from c have ne: "map name tools \<noteq> []" by simp
    from d none have "route_location location_coords ucd s (map name tools) location
        = (Inr (unable_to_query location_coords location (map name tools)), [])"
      by (simp add: route_location_def)
    then show "query_weather ucd self location
        = (Inr (unable_to_query location_coords location (map name tools)), [ListTools])"
      by (simp add: query_weather_routed [OF a b ne])
  qed
  from first whole show ?thesis by blast
qed

theorem state_code_tested_first_witness:
  "length (ascii ''LA'') = 2
   \<and> str_isalpha unicode_excerpt (str_upper unicode_excerpt (ascii ''LA''))
   \<and> map_of two_letter_table (str_lower unicode_excerpt (ascii ''LA''))
       = Some (34.0522, -118.2437)
   \<and> ascii ''get_alerts'' \<in> set [ascii ''get_alerts'', ascii ''get_forecast'']
   \<and> snd (route_location two_letter_table unicode_excerpt weather_service
             [ascii ''get_alerts'', ascii ''get_forecast''] (ascii ''LA''))
       = [CallTool (ascii ''get_alerts'') [(ascii ''state'', StrArg (ascii ''LA''))]]
   \<and> snd (route_location two_letter_table unicode_excerpt weather_service
             [ascii ''get_forecast''] (ascii ''LA''))
       = [CallTool (ascii ''get_forecast'')
            [(ascii ''latitude'', FloatArg 34.0522), (ascii ''longitude'', FloatArg (-118.2437))]]
   \<and> session (client_of forecast_only_service) = Some forecast_only_service
   \<and> list_tools forecast_only_service = Returns [forecast_tool]
   \<and> [forecast_tool] \<noteq> []
   \<and> ascii ''get_alerts'' \<notin> set (map name [forecast_tool])
   \<and> query_weather unicode_excerpt (client_of forecast_only_service) (ascii ''LA'')
       = (Inr (unable_to_query location_coords (ascii ''LA'') [ascii ''get_forecast'']),
          [ListTools])"
proof -
  have a: "length (ascii ''LA'') = 2" by simp
  have b: "str_isalpha unicode_excerpt (str_upper unicode_excerpt (ascii ''LA''))"
    unfolding str_upper_LA by (simp add: str_isalpha_def isalpha_char_def ascii_def)
  have c: "map_of two_letter_table (str_lower unicode_excerpt (ascii ''LA''))
      = Some (34.0522, -118.2437)"
    by (simp add: str_lower_LA two_letter_table_def)
  have d: "ascii ''get_alerts'' \<in> set [ascii ''get_alerts'', ascii ''get_forecast'']" by simp
  have f: "snd (route_location two_letter_table unicode_excerpt weather_service
             [ascii ''get_forecast''] (ascii ''LA''))
       = [CallTool (ascii ''get_forecast'')
            [(ascii ''latitude'', FloatArg 34.0522), (ascii ''longitude'', FloatArg (-118.2437))]]"
    using c by (simp add: route_location_def)
  have g: "session (client_of forecast_only_service) = Some forecast_only_service"
    by (simp add: client_of_def)
  have h: "list_tools forecast_only_service = Returns [forecast_tool]"
    by (simp add: forecast_only_service_def)
  have n: "name forecast_tool = ascii ''get_forecast''" by (simp add: forecast_tool_def)
  show ?thesis
    using a b c d f g h
      state_code_tested_first [OF a, where ucd = unicode_excerpt
        and available_tools = "[ascii ''get_alerts'', ascii ''get_forecast'']"
        and table = two_letter_table and s = weather_service
        and self = "client_of weather_service" and tools = "[alerts_tool, forecast_tool]"]
      state_code_tested_first [OF a, where ucd = unicode_excerpt
        and available_tools = "[ascii ''get_forecast'']"
        and table = two_letter_table and s = forecast_only_service
        and self = "client_of forecast_only_service" and tools = "[forecast_tool]"]
    by (simp add: str_upper_LA n)
qed

text \<open>
  C5. When the value a remote call returns has a content field: if the content is a list,
  the text returned is its items, each through \<^verbatim>\<open>str\<close>, joined by newlines in their
  order; if it is any other value, the text returned is that value through \<^verbatim>\<open>str\<close>.
  This holds for \<^verbatim>\<open>get_weather_forecast\<close>, for \<^verbatim>\<open>get_weather_alerts\<close> and for
  whichever call \<^verbatim>\<open>query_weather\<close> sends.
\<close>

theorem content_as_text:
  assumes "session self = Some s"
  shows "(call_tool s (ascii ''get_forecast'')
              [(ascii ''latitude'', FloatArg lat), (ascii ''longitude'', FloatArg lon)]
            = Returns (WithContent (ContentList items))
          \<longrightarrow> fst (get_weather_forecast self lat lon) = Inr (str_join newline (map py_str items)))
       \<and> (call_tool s (ascii ''get_forecast'')
              [(ascii ''latitude'', FloatArg lat), (ascii ''longitude'', FloatArg lon)]
            = Returns (WithContent (ContentValue v))
          \<longrightarrow> fst (get_weather_forecast self lat lon) = Inr (py_str v))
       \<and> (call_tool s (ascii ''get_alerts'') [(ascii ''state'', StrArg (str_upper ucd state_code))]
            = Returns (WithContent (ContentList items))
          \<longrightarrow> fst (get_weather_alerts ucd self state_code)
                = Inr (str_join newline (map py_str items)))
       \<and> (call_tool s (ascii ''get_alerts'') [(ascii ''state'', StrArg (str_upper ucd state_code))]
            = Returns (WithContent (ContentValue v))
          \<longrightarrow> fst (get_weather_alerts ucd self state_code) = Inr (py_str v))
       \<and> (CallTool tool args \<in> set (snd (query_weather ucd self location))
            \<and> call_tool s tool args = Returns (WithContent (ContentList items))
          \<longrightarrow> fst (query_weather ucd self location) = Inr (str_join newline (map py_str items)))
       \<and> (CallTool tool args \<in> set (snd (query_weather ucd self location))
            \<and> call_tool s tool args = Returns (WithContent (ContentValue v))
          \<longrightarrow> fst (query_weather ucd self location) = Inr (py_str v))"
proof -
  have forecast: "get_weather_forecast self lat lon
      = invoke forecast_error s (ascii ''get_forecast'')
          [(ascii ''latitude'', FloatArg lat), (ascii ''longitude'', FloatArg lon)]"
    using assms by (simp add: get_weather_forecast_def)
  have alerts: "get_weather_alerts ucd self state_code
      = invoke alerts_error s (ascii ''get_alerts'')
          [(ascii ''state'', StrArg (str_upper ucd state_code))]"
    using assms by (simp add: get_weather_alerts_def)
  show ?thesis
    using query_weather_sent [OF assms, of tool args ucd location]
    by (simp add: forecast alerts fst_invoke_Returns)
qed

theorem content_as_text_witness:
  "session (client_of weather_service) = Some weather_service
   \<and> session (client_of scalar_service) = Some scalar_service
   \<and> call_tool weather_service (ascii ''get_forecast'')
         [(ascii ''latitude'', FloatArg 40.7128), (ascii ''longitude'', FloatArg (-74.006))]
       = Returns (WithContent (ContentList
           [PyObject (ascii ''Tonight: clear''), PyObject (ascii ''Tomorrow: rain'')]))
   \<and> fst (get_weather_forecast (client_of weather_service) 40.7128 (-74.006))
       = Inr (ascii ''Tonight: clear'' @ [0x0A] @ ascii ''Tomorrow: rain'')
   \<and> fst (get_weather_alerts unicode_excerpt (client_of weather_service) (ascii ''ca''))
       = Inr (ascii ''Tonight: clear'' @ [0x0A] @ ascii ''Tomorrow: rain'')
   \<and> CallTool (ascii ''get_alerts'') [(ascii ''state'', StrArg (ascii ''CA''))]
        \<in> set (snd (query_weather unicode_excerpt (client_of weather_service) (ascii ''CA'')))
   \<and> fst (query_weather unicode_excerpt (client_of weather_service) (ascii ''CA''))
       = Inr (ascii ''Tonight: clear'' @ [0x0A] @ ascii ''Tomorrow: rain'')
   \<and> call_tool scalar_service (ascii ''get_alerts'') [(ascii ''state'', StrArg (ascii ''CA''))]
       = Returns (WithContent (ContentValue (PyObject (ascii ''No active alerts''))))
   \<and> fst (get_weather_forecast (client_of scalar_service) 40.7128 (-74.006))
       = Inr (ascii ''No active alerts'')
   \<and> fst (get_weather_alerts unicode_excerpt (client_of scalar_service) (ascii ''ca''))
       = Inr (ascii ''No active alerts'')
   \<and> CallTool (ascii ''get_alerts'') [(ascii ''state'', StrArg (ascii ''CA''))]
        \<in> set (snd (query_weather unicode_excerpt (client_of scalar_service) (ascii ''CA'')))
   \<and> fst (query_weather unicode_excerpt (client_of scalar_service) (ascii ''CA''))
       = Inr (ascii ''No active alerts'')"
proof -
  let ?items = "[PyObject (ascii ''Tonight: clear''), PyObject (ascii ''Tomorrow: rain'')]"
  let ?v = "PyObject (ascii ''No active alerts'')"
  let ?state = "[(ascii ''state'', StrArg (ascii ''CA''))]"
  have a: "session (client_of weather_service) = Some weather_service"
    by (simp add: client_of_def)
  have b: "session (client_of scalar_service) = Some scalar_service"
    by (simp add: client_of_def)
  have many: "call_tool weather_service tool args = Returns (WithContent (ContentList ?items))"
    for tool args by (simp add: weather_service_def two_values_def)
  have one: "call_tool scalar_service tool args = Returns (WithContent (ContentValue ?v))"
    for tool args by (simp add: scalar_service_def weather_service_def)
  have sent1: "CallTool (ascii ''get_alerts'') ?state
      \<in> set (snd (query_weather unicode_excerpt (client_of weather_service) (ascii ''CA'')))"
    by code_simp
  have sent2: "CallTool (ascii ''get_alerts'') ?state
      \<in> set (snd (query_weather unicode_excerpt (client_of scalar_service) (ascii ''CA'')))"
    by code_simp
  show ?thesis
    using a b sent1 sent2
      content_as_text [OF a, where lat = "40.7128" and lon = "-74.006" and items = ?items
        and v = ?v and ucd = unicode_excerpt and state_code = "ascii ''ca''"
        and tool = "ascii ''get_alerts''" and args = ?state and location = "ascii ''CA''"]
      content_as_text [OF b, where lat = "40.7128" and lon = "-74.006" and items = ?items
        and v = ?v and ucd = unicode_excerpt and state_code = "ascii ''ca''"
        and tool = "ascii ''get_alerts''" and args = ?state and location = "ascii ''CA''"]
    by (simp add: many one str_upper_ca newline_def)
qed

text \<open>
  C6. A connect that fails at the handshake returns \<^verbatim>\<open>False\<close> and leaves the
  session attribute set. The four methods called next do not raise the precondition
  error: they send their requests to the session that was never initialised and return
  an error text or an empty list.
\<close>

theorem failed_handshake_keeps_session:
  "connect_to_weather_server unready_launch new_client = (Inr False, client_of unready_service)
   \<and> query_weather unicode_excerpt (client_of unready_service) (ascii ''CA'')
       = (Inr (querying_error @ ascii ''Connection closed''), [ListTools])
   \<and> get_weather_forecast (client_of unready_service) 40.7128 (-74.006)
       = (Inr (forecast_error @ ascii ''Connection closed''),
          [CallTool (ascii ''get_forecast'')
             [(ascii ''latitude'', FloatArg 40.7128), (ascii ''longitude'', FloatArg (-74.006))]])
   \<and> get_weather_alerts unicode_excerpt (client_of unready_service) (ascii ''CA'')
       = (Inr (alerts_error @ ascii ''Connection closed''),
          [CallTool (ascii ''get_alerts'') [(ascii ''state'', StrArg (ascii ''CA''))]])
   \<and> list_available_tools (client_of unready_service) = (Inr [], [ListTools])"
proof -
  have i: "initialize unready_service = Raises connection_closed"
    by (simp add: unready_service_def)
  have l: "list_tools unready_service = Raises connection_closed"
    by (simp add: unready_service_def mute_service_def)
  have c: "call_tool unready_service tool args = Raises connection_closed" for tool args
    by (simp add: unready_service_def mute_service_def failing_service_def)
  have e: "except_Exception connection_closed handler = Inr (handler (ascii ''Connection closed''))"
    for handler :: "str \<Rightarrow> 'a"
    by (simp add: except_Exception_def connection_closed_def)
  have connect: "connect_to_weather_server unready_launch new_client
      = (Inr False, client_of unready_service)"
    by (simp add: connect_to_weather_server_def unready_launch_def new_client_def client_of_def
        i e)
  show ?thesis
    by (simp add: connect query_weather_def get_weather_forecast_def get_weather_alerts_def
        list_available_tools_def invoke_def client_of_def l c e str_upper_CA)
qed




text \<open>
  C8. A service that advertises nothing: "Atlantis" matches neither rule, and the answer
  is the fixed text of the empty tool list, which holds neither the input nor a city.
\<close>

theorem query_weather_unrecognised_counterexample:
  "session (client_of silent_service) = Some silent_service
   \<and> list_tools silent_service = Returns []
   \<and> length (ascii ''Atlantis'') \<noteq> 2
   \<and> map_of location_coords (str_lower unicode_excerpt (ascii ''Atlantis'')) = None
   \<and> query_weather unicode_excerpt (client_of silent_service) (ascii ''Atlantis'')
       = (Inr (ascii ''No tools available on the server.''), [ListTools])
   \<and> \<not> sublist (ascii ''Atlantis'') (ascii ''No tools available on the server.'')
   \<and> \<not> sublist (ascii ''beijing'') (ascii ''No tools available on the server.'')"
proof -
  have a: "session (client_of silent_service) = Some silent_service"
    by (simp add: client_of_def)
  have b: "list_tools silent_service = Returns []"
    by (simp add: silent_service_def)
  have c: "map_of location_coords (str_lower unicode_excerpt (ascii ''Atlantis'')) = None"
    by (simp add: str_lower_Atlantis location_coords_def)
  have d: "query_weather unicode_excerpt (client_of silent_service) (ascii ''Atlantis'')
       = (Inr (ascii ''No tools available on the server.''), [ListTools])"
    using a b by (simp add: query_weather_def)
  have e: "\<not> sublist (ascii ''Atlantis'') (ascii ''No tools available on the server.'')"
    by code_simp
  have f: "\<not> sublist (ascii ''beijing'') (ascii ''No tools available on the server.'')"
    by code_simp
  show ?thesis using a b c d e f by simp
qed

text \<open>
  C8, as the code has it. With a session in place and a tool listing that is not empty,
  an input that takes neither the alert branch nor the forecast branch gets the help
  message and no tool call. The message opens with the input between quotes, unchanged,
  holds the ten city names of the table in their order, and ends with the advertised names.
\<close>

theorem query_weather_unrecognised:
  assumes "session self = Some s" and "list_tools s = Returns tools" and "tools \<noteq> []"
    and "\<not> (length location = 2 \<and> str_isalpha ucd (str_upper ucd location)
             \<and> ascii ''get_alerts'' \<in> set (map name tools))"
    and "\<not> (map_of location_coords (str_lower ucd location) \<noteq> None
             \<and> ascii ''get_forecast'' \<in> set (map name tools))"
  shows "query_weather ucd self location
           = (Inr (unable_to_query location_coords location (map name tools)), [ListTools])
       \<and> prefix (question_mark @ ascii '' Unable to query weather for '' @ quote @ location @ quote)
           (unable_to_query location_coords location (map name tools))
       \<and> sublist (ascii ''beijing, new york, london, tokyo, san francisco, paris, sydney, los angeles, chicago, miami'')
           (unable_to_query location_coords location (map name tools))
       \<and> suffix (ascii ''Available tools on server: '' @ str_join (ascii '', '') (map name tools))
           (unable_to_query location_coords location (map name tools))"
proof -
  from assms(3) have ne: "map name tools \<noteq> []" by simp
  have "route_location location_coords ucd s (map name tools) location
      = (Inr (unable_to_query location_coords location (map name tools)), [])"
    using assms(4,5) by (auto simp add: route_location_def split: option.splits)
  then have "query_weather ucd self location
      = (Inr (unable_to_query location_coords location (map name tools)), [ListTools])"
    by (simp add: query_weather_routed [OF assms(1,2) ne])
  then show ?thesis
    using unable_to_query_location [of location location_coords "map name tools"]
      unable_to_query_cities [of location_coords location "map name tools"]
      unable_to_query_tools [of "map name tools" location_coords location]
    by (simp only: known_cities simp_thms)
qed

theorem query_weather_unrecognised_witness:
  "session (client_of weather_service) = Some weather_service
   \<and> list_tools weather_service = Returns [alerts_tool, forecast_tool]
   \<and> [alerts_tool, forecast_tool] \<noteq> []
   \<and> \<not> (length (ascii ''Atlantis'') = 2
          \<and> str_isalpha unicode_excerpt (str_upper unicode_excerpt (ascii ''Atlantis''))
          \<and> ascii ''get_alerts'' \<in> set (map name [alerts_tool, forecast_tool]))
   \<and> \<not> (map_of location_coords (str_lower unicode_excerpt (ascii ''Atlantis'')) \<noteq> None
          \<and> ascii ''get_forecast'' \<in> set (map name [alerts_tool, forecast_tool]))
   \<and> query_weather unicode_excerpt (client_of weather_service) (ascii ''Atlantis'')
       = (Inr (unable_to_query location_coords (ascii ''Atlantis'')
                 [ascii ''get_alerts'', ascii ''get_forecast'']),
          [ListTools])
   \<and> suffix (ascii ''Available tools on server: get_alerts, get_forecast'')
        (unable_to_query location_coords (ascii ''Atlantis'')
           [ascii ''get_alerts'', ascii ''get_forecast''])"
proof -
  have a: "session (client_of weather_service) = Some weather_service"
    by (simp add: client_of_def)
  have b: "list_tools weather_service = Returns [alerts_tool, forecast_tool]"
    by (simp add: weather_service_def)
  have c: "[alerts_tool, forecast_tool] \<noteq> []" by simp
  have d: "\<not> (length (ascii ''Atlantis'') = 2
          \<and> str_isalpha unicode_excerpt (str_upper unicode_excerpt (ascii ''Atlantis''))
          \<and> ascii ''get_alerts'' \<in> set (map name [alerts_tool, forecast_tool]))"
    by simp
  have e: "\<not> (map_of location_coords (str_lower unicode_excerpt (ascii ''Atlantis'')) \<noteq> None
          \<and> ascii ''get_forecast'' \<in> set (map name [alerts_tool, forecast_tool]))"
    by (simp add: str_lower_Atlantis location_coords_def)
  have n: "name alerts_tool = ascii ''get_alerts''" "name forecast_tool = ascii ''get_forecast''"
    by (simp_all add: alerts_tool_def forecast_tool_def)
  have j: "ascii ''Available tools on server: '' @ ascii ''get_alerts'' @ ascii '', ''
             @ ascii ''get_forecast''
      = ascii ''Available tools on server: get_alerts, get_forecast''"
    by (simp add: ascii_def)
  show ?thesis
    using a b c d e query_weather_unrecognised [OF a b c d e] by (simp add: n j)
qed

text \<open>
  C9. With a session in place and a service that advertises no operation,
  \<^verbatim>\<open>query_weather\<close> answers every input with the fixed text
  "No tools available on the server."; the tool listing is the only request it has sent.
\<close>

theorem query_weather_no_tools:
  assumes "session self = Some s" and "list_tools s = Returns []"
  shows "query_weather ucd self location
           = (Inr (ascii ''No tools available on the server.''), [ListTools])"
  using assms by (simp add: query_weather_def)

theorem query_weather_no_tools_witness:
  "session (client_of silent_service) = Some silent_service
   \<and> list_tools silent_service = Returns []
   \<and> query_weather unicode_excerpt (client_of silent_service) (ascii ''CA'')
       = (Inr (ascii ''No tools available on the server.''), [ListTools])"
proof -
  have a: "session (client_of silent_service) = Some silent_service"
    by (simp add: client_of_def)
  have b: "list_tools silent_service = Returns []"
    by (simp add: silent_service_def weather_service_def)
  show ?thesis
    using a b query_weather_no_tools [OF a b, of unicode_excerpt "ascii ''CA''"] by simp
qed

text \<open>
  C10. \<^verbatim>\<open>get_weather_alerts\<close> sends one \<^verbatim>\<open>get_alerts\<close> call with
  \<open>{state: argument.upper()}\<close> for every argument, whatever its length and characters:
  "foo" is sent as state "FOO".
\<close>

theorem get_weather_alerts_request:
  assumes "session self = Some s"
  shows "snd (get_weather_alerts ucd self state_code)
           = [CallTool (ascii ''get_alerts'') [(ascii ''state'', StrArg (str_upper ucd state_code))]]"
  using assms by (simp add: get_weather_alerts_def)

theorem get_weather_alerts_request_witness:
  "session (client_of weather_service) = Some weather_service
   \<and> snd (get_weather_alerts unicode_excerpt (client_of weather_service) (ascii ''foo''))
       = [CallTool (ascii ''get_alerts'') [(ascii ''state'', StrArg (ascii ''FOO''))]]"
proof -
  have a: "session (client_of weather_service) = Some weather_service"
    by (simp add: client_of_def)
  show ?thesis
    using a get_weather_alerts_request [OF a, of unicode_excerpt "ascii ''foo''"]
    by (simp add: str_upper_foo)
qed

end
